theory Spec2Isabelle
  imports Complex_Main
begin

section \<open>JavaScript strings\<close>

text \<open>
  A JavaScript string is a sequence of UTF-16 code units. The chat texts of this
  program are Japanese, so a string is modelled as the list of its code units;
  \<open>js\<close> embeds an ASCII literal. A string is truthy exactly when it is not empty.
\<close>

type_synonym jsstring = "nat list"

definition js :: "string \<Rightarrow> jsstring" where
  "js s = map of_char s"

text \<open>
  \<open>a || b\<close> on a string that may be absent (\<open>None\<close> for \<open>undefined\<close> or \<open>null\<close>):
  \<open>a\<close> unless it is absent or empty.
\<close>

definition truthy :: "jsstring option \<Rightarrow> bool" where
  "truthy s = (case s of None \<Rightarrow> False | Some v \<Rightarrow> v \<noteq> [])"

definition or_else :: "jsstring option \<Rightarrow> jsstring \<Rightarrow> jsstring" where
  "or_else a b = (case a of None \<Rightarrow> b | Some v \<Rightarrow> if v \<noteq> [] then v else b)"

text \<open>\<open>String.prototype.includes\<close>: the pattern occurs as a contiguous run.\<close>

fun includes_js :: "jsstring \<Rightarrow> jsstring \<Rightarrow> bool" where
  "includes_js [] p = (p = [])"
| "includes_js (c # cs) p = (take (length p) (c # cs) = p \<or> includes_js cs p)"

text \<open>
  \<open>String.prototype.trim\<close> removes white space and line terminators at both ends:
  TAB, LF, VT, FF, CR, SP, NBSP, U+1680, U+2000 to U+200A, U+2028, U+2029, U+202F,
  U+205F, U+3000 and U+FEFF.
\<close>

definition is_js_space :: "nat \<Rightarrow> bool" where
  "is_js_space c =
     ((9 \<le> c \<and> c \<le> 13) \<or> c = 32 \<or> c = 160 \<or> c = 0x1680 \<or> (0x2000 \<le> c \<and> c \<le> 0x200A)
      \<or> c = 0x2028 \<or> c = 0x2029 \<or> c = 0x202F \<or> c = 0x205F \<or> c = 0x3000 \<or> c = 0xFEFF)"

definition trim :: "jsstring \<Rightarrow> jsstring" where
  "trim s = rev (dropWhile is_js_space (rev (dropWhile is_js_space s)))"

text \<open>The decimal digits of a natural number, as a template literal prints it.\<close>

fun decimal :: "nat \<Rightarrow> jsstring" where
  "decimal n = (if n < 10 then [48 + n] else decimal (n div 10) @ [48 + n mod 10])"

declare decimal.simps [simp del]

text \<open>
  \<open>(size / 1024 / 1024).toFixed(1)\<close>. Both divisions are by a power of two and a blob
  size is an integer below \<open>2 ^ 53\<close>, so the quotient is exactly \<open>size / 2 ^ 20\<close>.
  \<open>toFixed(1)\<close> takes the integer \<open>n\<close> with \<open>n / 10\<close> nearest to it, the larger one at
  a tie, and prints \<open>n\<close> with one digit after the point.
\<close>

definition toFixed1_MB :: "nat \<Rightarrow> jsstring" where
  "toFixed1_MB sz =
     (let n = (10 * sz + 2 ^ 19) div 2 ^ 20
      in decimal (n div 10) @ js ''.'' @ decimal (n mod 10))"

section \<open>Audio blobs, validation and the voice form (services/api.js)\<close>

record blob =
  blob_size :: nat
  blob_type :: jsstring

record validation_result =
  valid :: bool
  warnings :: "jsstring list"
  errors :: "jsstring list"

definition maxSize :: nat where
  "maxSize = 500 * 1024 * 1024"

definition supportedTypes :: "jsstring list" where
  "supportedTypes = [js ''audio/webm'', js ''audio/wav'', js ''audio/mp3'', js ''audio/ogg'']"

text \<open>
  \<open>apiUtils.validateAudioBlob\<close>. The argument is \<open>None\<close> for \<open>null\<close> or \<open>undefined\<close>.
  The empty case returns at once; the three later checks each run on their own.
\<close>

definition validateAudioBlob :: "blob option \<Rightarrow> validation_result" where
  "validateAudioBlob audioBlob =
     (let result = \<lparr>valid = True, warnings = [], errors = []\<rparr>
      in case audioBlob of
           None \<Rightarrow> result\<lparr>valid := False, errors := errors result @ [js ''Audio data is empty'']\<rparr>
         | Some b \<Rightarrow>
             if blob_size b = 0
             then result\<lparr>valid := False, errors := errors result @ [js ''Audio data is empty'']\<rparr>
             else
               let result =
                     (if blob_size b > maxSize
                      then result\<lparr>valid := False,
                             errors := errors result @
                               [js ''Audio file too large: '' @ toFixed1_MB (blob_size b)
                                  @ js ''MB (max: 500MB)'']\<rparr>
                      else result);
                   result =
                     (if blob_size b < 1024
                      then result\<lparr>warnings := warnings result @
                             [js ''Audio file very small - may not contain speech'']\<rparr>
                      else result);
                   result =
                     (if \<not> list_ex (\<lambda>t. includes_js (blob_type b) t) supportedTypes
                      then result\<lparr>warnings := warnings result @
                             [js ''Audio type '' @ blob_type b @ js '' may not be optimal'']\<rparr>
                      else result)
               in result)"

text \<open>A \<open>FormData\<close> is the ordered list of its entries.\<close>

datatype form_entry =
    FileField jsstring blob jsstring
  | TextField jsstring jsstring

type_synonym form_data = "form_entry list"

record voice_options =
  opt_session_id :: "jsstring option"
  opt_language :: "jsstring option"

text \<open>\<open>apiUtils.createVoiceFormData\<close>; an absent or empty option is falsy.\<close>

definition createVoiceFormData :: "blob \<Rightarrow> voice_options \<Rightarrow> form_data" where
  "createVoiceFormData audioBlob options =
     (let formData = [];
          filename = js ''recording.'' @
            (if includes_js (blob_type audioBlob) (js ''webm'') then js ''webm'' else js ''wav'');
          formData = formData @ [FileField (js ''audio'') audioBlob filename];
          formData =
            (case opt_session_id options of
               None \<Rightarrow> formData
             | Some s \<Rightarrow>
                 if s \<noteq> [] then formData @ [TextField (js ''session_id'') s] else formData);
          formData = formData @
            [TextField (js ''language'') (or_else (opt_language options) (js ''ja''))]
      in formData)"

section \<open>The HTTP client and its requests (services/api.js)\<close>

text \<open>Payloads that the client only forwards are JSON values.\<close>

datatype json =
    JNull
  | JBool bool
  | JNum real
  | JStr jsstring
  | JArr "json list"
  | JObj "(jsstring \<times> json) list"

record axios_config =
  baseURL :: jsstring
  timeout :: nat
  headers :: "(jsstring \<times> jsstring) list"

definition API_BASE_URL :: jsstring where
  "API_BASE_URL = js ''http://localhost:5000''"

text \<open>\<open>const api = axios.create({...})\<close>, the instance behind every JSON call.\<close>

definition api :: axios_config where
  "api = \<lparr>baseURL = API_BASE_URL, timeout = 60000,
           headers = [(js ''Content-Type'', js ''application/json'')]\<rparr>"

datatype http_method = GET | POST

datatype request_body =
    NoBody
  | JsonBody "(jsstring \<times> json) list"
  | FormBody form_data

text \<open>
  A request as it leaves the client. \<open>req_timeout\<close> is \<open>None\<close> when nothing bounds the
  wait: \<open>fetch\<close> has no timeout of its own.
\<close>

record request =
  req_method :: http_method
  req_url :: jsstring
  req_timeout :: "nat option"
  req_headers :: "(jsstring \<times> jsstring) list"
  req_params :: "(jsstring \<times> json) list"
  req_body :: request_body

definition api_get :: "axios_config \<Rightarrow> jsstring \<Rightarrow> (jsstring \<times> json) list \<Rightarrow> request" where
  "api_get cfg path params =
     \<lparr>req_method = GET, req_url = baseURL cfg @ path, req_timeout = Some (timeout cfg),
      req_headers = headers cfg, req_params = params, req_body = NoBody\<rparr>"

definition api_post :: "axios_config \<Rightarrow> jsstring \<Rightarrow> (jsstring \<times> json) list \<Rightarrow> request" where
  "api_post cfg path data =
     \<lparr>req_method = POST, req_url = baseURL cfg @ path, req_timeout = Some (timeout cfg),
      req_headers = headers cfg, req_params = [], req_body = JsonBody data\<rparr>"

definition fetch_post :: "jsstring \<Rightarrow> form_data \<Rightarrow> request" where
  "fetch_post url formData =
     \<lparr>req_method = POST, req_url = url, req_timeout = None,
      req_headers = [], req_params = [], req_body = FormBody formData\<rparr>"

text \<open>A default parameter value applies when the argument is \<open>undefined\<close>.\<close>

definition default_arg :: "'a \<Rightarrow> 'a option \<Rightarrow> 'a" where
  "default_arg d a = (case a of None \<Rightarrow> d | Some v \<Rightarrow> v)"

definition json_of_session :: "jsstring option \<Rightarrow> json" where
  "json_of_session s = (case s of None \<Rightarrow> JNull | Some v \<Rightarrow> JStr v)"

text \<open>The request each method of \<open>chatAPI\<close>, \<open>weatherAPI\<close>, \<open>agricultureAPI\<close> and \<open>apiUtils\<close> sends.\<close>

definition sendMessage_request :: "jsstring \<Rightarrow> jsstring option \<Rightarrow> jsstring option \<Rightarrow> request" where
  "sendMessage_request message session_id language =
     api_post api (js ''/api/chat/'')
       [(js ''message'', JStr (trim message)),
        (js ''session_id'', json_of_session session_id),
        (js ''language'', JStr (default_arg (js ''japanese'') language))]"

definition processVoiceInput_request :: "form_data \<Rightarrow> request" where
  "processVoiceInput_request formData =
     fetch_post (API_BASE_URL @ js ''/api/chat/voice/process'') formData"

definition getVoiceStatus_request :: request where
  "getVoiceStatus_request = api_get api (js ''/api/chat/voice/status'') []"

definition analyzeQuery_request :: "jsstring \<Rightarrow> request" where
  "analyzeQuery_request message =
     api_post api (js ''/api/chat/analyze'') [(js ''message'', JStr (trim message))]"

definition city_country :: "jsstring option \<Rightarrow> jsstring option \<Rightarrow> (jsstring \<times> json) list" where
  "city_country city country =
     [(js ''city'', JStr (default_arg (js ''Tokyo'') city)),
      (js ''country'', JStr (default_arg (js ''JP'') country))]"

definition getCurrentWeather_request :: "jsstring option \<Rightarrow> jsstring option \<Rightarrow> request" where
  "getCurrentWeather_request city country =
     api_get api (js ''/api/weather/current'') (city_country city country)"

definition getForecast_request :: "jsstring option \<Rightarrow> jsstring option \<Rightarrow> json option \<Rightarrow> request" where
  "getForecast_request city country days =
     api_get api (js ''/api/weather/forecast'')
       (city_country city country @ [(js ''days'', default_arg (JNum 5) days)])"

definition searchLocations_request :: "json \<Rightarrow> request" where
  "searchLocations_request query =
     api_get api (js ''/api/weather/locations/search'')
       [(js ''query'', query), (js ''limit'', JNum 5)]"

definition getCropRecommendations_request :: "jsstring option \<Rightarrow> jsstring option \<Rightarrow> request" where
  "getCropRecommendations_request city country =
     api_get api (js ''/api/agriculture/crops/recommendations'') (city_country city country)"

definition getPestRiskAssessment_request ::
    "jsstring option \<Rightarrow> jsstring option \<Rightarrow> jsstring option \<Rightarrow> request" where
  "getPestRiskAssessment_request city country cropType =
     api_get api (js ''/api/agriculture/pest/risk-assessment'')
       (city_country city country @
          [(js ''crop_type'', JStr (default_arg (js ''general'') cropType))])"

definition getSeasonalAdvice_request :: "jsstring option \<Rightarrow> jsstring option \<Rightarrow> request" where
  "getSeasonalAdvice_request city country =
     api_get api (js ''/api/agriculture/seasonal/advice'') (city_country city country)"

definition checkHealth_request :: request where
  "checkHealth_request = api_get api (js ''/'') []"

definition getApiDocs_request :: request where
  "getApiDocs_request = api_get api (js ''/api'') []"

section \<open>The recording hook (hooks/useDeepgramVoiceRecording.js)\<close>

text \<open>
  The Japanese user-facing texts of the hook, as UTF-16 code units. Each is named after
  what it says.
\<close>

text \<open>``The recording is empty. Please try again'' (\<open>onstop\<close>).\<close>

definition ja_empty_recording :: jsstring where
  "ja_empty_recording =
     [0x9332, 0x97F3, 0x30C7, 0x30FC, 0x30BF, 0x304C, 0x7A7A, 0x3067, 0x3059, 0x3002,
      0x3082, 0x3046, 0x4E00, 0x5EA6, 0x304A, 0x8A66, 0x3057, 0x304F, 0x3060, 0x3055,
      0x3044]"

text \<open>``Recording error: '' (\<open>onerror\<close>).\<close>

definition ja_record_error_prefix :: jsstring where
  "ja_record_error_prefix =
     [0x9332, 0x97F3, 0x30A8, 0x30E9, 0x30FC, 0x003A, 0x0020]"

text \<open>``unknown error'' (\<open>onerror\<close>).\<close>

definition ja_unknown_error :: jsstring where
  "ja_unknown_error =
     [0x4E0D, 0x660E, 0x306A, 0x30A8, 0x30E9, 0x30FC]"

text \<open>``Failed to start recording'' (\<open>startRecording\<close>).\<close>

definition ja_start_failed :: jsstring where
  "ja_start_failed =
     [0x9332, 0x97F3, 0x958B, 0x59CB, 0x306B, 0x5931, 0x6557, 0x3057, 0x307E, 0x3057,
      0x305F]"

text \<open>``Microphone access was denied. Check the browser settings''.\<close>

definition ja_mic_denied :: jsstring where
  "ja_mic_denied =
     [0x30DE, 0x30A4, 0x30AF, 0x3078, 0x306E, 0x30A2, 0x30AF, 0x30BB, 0x30B9, 0x304C,
      0x62D2, 0x5426, 0x3055, 0x308C, 0x307E, 0x3057, 0x305F, 0x3002, 0x30D6, 0x30E9,
      0x30A6, 0x30B6, 0x306E, 0x8A2D, 0x5B9A, 0x3092, 0x78BA, 0x8A8D, 0x3057, 0x3066,
      0x304F, 0x3060, 0x3055, 0x3044]"

text \<open>``No microphone found. Check that one is connected''.\<close>

definition ja_mic_not_found :: jsstring where
  "ja_mic_not_found =
     [0x30DE, 0x30A4, 0x30AF, 0x304C, 0x898B, 0x3064, 0x304B, 0x308A, 0x307E, 0x305B,
      0x3093, 0x3002, 0x30DE, 0x30A4, 0x30AF, 0x304C, 0x63A5, 0x7D9A, 0x3055, 0x308C,
      0x3066, 0x3044, 0x308B, 0x304B, 0x78BA, 0x8A8D, 0x3057, 0x3066, 0x304F, 0x3060,
      0x3055, 0x3044]"

text \<open>``Recording is not supported in this browser''.\<close>

definition ja_not_supported :: jsstring where
  "ja_not_supported =
     [0x3053, 0x306E, 0x30D6, 0x30E9, 0x30A6, 0x30B6, 0x3067, 0x306F, 0x9332, 0x97F3,
      0x304C, 0x30B5, 0x30DD, 0x30FC, 0x30C8, 0x3055, 0x308C, 0x3066, 0x3044, 0x307E,
      0x305B, 0x3093]"

text \<open>``Error stopping the recording: '' (\<open>stopRecording\<close>).\<close>

definition ja_stop_error_prefix :: jsstring where
  "ja_stop_error_prefix =
     [0x9332, 0x97F3, 0x505C, 0x6B62, 0x30A8, 0x30E9, 0x30FC, 0x003A, 0x0020]"

datatype recorder_state = Inactive | Recording

text \<open>
  The \<open>MediaRecorder\<close> the hook created: the encoding it was constructed with (the
  \<open>mimeType\<close> variable that the handlers close over) and the platform's state of it.
\<close>

record media_recorder =
  mimeType :: jsstring
  rec_state :: recorder_state

datatype media_stream = AudioStream

text \<open>
  The hook's React state (\<open>voiceError\<close> is the state variable \<open>error\<close>, under the name
  the chat view gives it) and its three refs.
\<close>

record hook_state =
  isRecording :: bool
  isProcessing :: bool
  transcript :: jsstring
  confidence :: real
  voiceError :: "jsstring option"
  isSupported :: bool
  mediaRecorderRef :: "media_recorder option"
  audioChunksRef :: "blob list"
  streamRef :: "media_stream option"

text \<open>\<open>new Blob(chunks, {type})\<close>: the chunks concatenated, tagged with the encoding.\<close>

definition new_Blob :: "blob list \<Rightarrow> jsstring \<Rightarrow> blob" where
  "new_Blob chunks ty = \<lparr>blob_size = sum_list (map blob_size chunks), blob_type = ty\<rparr>"

text \<open>
  \<open>MediaRecorder.stop()\<close>: on an inactive recorder it does nothing; otherwise the
  recorder becomes inactive and the platform later fires \<open>dataavailable\<close> with the data
  gathered so far, then \<open>stop\<close>. The result is a sum so that the \<open>catch\<close> of
  \<open>stopRecording\<close> has its branch.
\<close>

definition recorder_stop :: "media_recorder \<Rightarrow> jsstring + media_recorder" where
  "recorder_stop r = Inr (r\<lparr>rec_state := Inactive\<rparr>)"

text \<open>
  \<open>streamRef.current.getTracks().forEach(track => track.stop()); streamRef.current = null\<close>:
  the tracks end and the hook drops the stream in the same step.
\<close>

definition release_stream :: "hook_state \<Rightarrow> hook_state" where
  "release_stream st = (case streamRef st of None \<Rightarrow> st | Some s \<Rightarrow> st\<lparr>streamRef := None\<rparr>)"

datatype error_name = NotAllowedError | NotFoundError | NotSupportedError | OtherError

text \<open>The \<open>catch\<close> block of \<open>startRecording\<close>.\<close>

definition start_failed :: "error_name \<Rightarrow> hook_state \<Rightarrow> hook_state" where
  "start_failed name st =
     (let errorMessage =
            (case name of
               NotAllowedError \<Rightarrow> ja_mic_denied
             | NotFoundError \<Rightarrow> ja_mic_not_found
             | NotSupportedError \<Rightarrow> ja_not_supported
             | OtherError \<Rightarrow> ja_start_failed)
      in st\<lparr>voiceError := Some errorMessage, isRecording := False\<rparr>)"

text \<open>
  \<open>startRecording\<close>. \<open>c\<close> is the render whose closure the callback reads; the platform
  gives \<open>isTypeSupported\<close> and the outcome of \<open>getUserMedia\<close>. The \<open>MediaRecorder\<close>
  constructor throws \<open>NotSupportedError\<close> for an encoding the platform does not support.
\<close>

definition startRecording ::
    "hook_state \<Rightarrow> (jsstring \<Rightarrow> bool) \<Rightarrow> error_name + media_stream \<Rightarrow> hook_state \<Rightarrow> hook_state" where
  "startRecording c isTypeSupported getUserMedia st =
     (if \<not> isSupported c \<or> isRecording c \<or> isProcessing c then st
      else
        let st = st\<lparr>voiceError := None, transcript := [], confidence := 0\<rparr>
        in case getUserMedia of
             Inl name \<Rightarrow> start_failed name st
           | Inr stream \<Rightarrow>
               let st = st\<lparr>streamRef := Some stream\<rparr>;
                   mt = (if isTypeSupported (js ''audio/webm;codecs=opus'')
                         then js ''audio/webm;codecs=opus''
                         else if isTypeSupported (js ''audio/wav'') then js ''audio/wav''
                         else js ''audio/webm'')
               in if \<not> isTypeSupported mt then start_failed NotSupportedError st
                  else st\<lparr>mediaRecorderRef := Some \<lparr>mimeType = mt, rec_state = Recording\<rparr>,
                          audioChunksRef := [],
                          isRecording := True\<rparr>)"

text \<open>\<open>mediaRecorder.ondataavailable\<close>: only a non-empty chunk is kept.\<close>

definition ondataavailable :: "blob \<Rightarrow> hook_state \<Rightarrow> hook_state" where
  "ondataavailable data st =
     (if blob_size data > 0 then st\<lparr>audioChunksRef := audioChunksRef st @ [data]\<rparr> else st)"

text \<open>
  The upload of \<open>processAudioWithBackend\<close>, up to its \<open>fetch\<close>: the form is built in
  place, not through \<open>createVoiceFormData\<close>.
\<close>

definition processAudioWithBackend_request :: "blob \<Rightarrow> request" where
  "processAudioWithBackend_request audioBlob =
     (let formData = [];
          formData = formData @ [FileField (js ''audio'') audioBlob (js ''recording.webm'')];
          formData = formData @ [TextField (js ''language'') (js ''ja'')]
      in fetch_post (js ''http://localhost:5000/api/chat/voice/process'') formData)"

text \<open>
  \<open>mediaRecorder.onstop\<close>, with the \<open>mimeType\<close> of the recorder that fires it, up to
  the point where it awaits the upload. The second component is the request sent to
  the backend, \<open>None\<close> when none is sent.
\<close>

definition onstop :: "jsstring \<Rightarrow> hook_state \<Rightarrow> hook_state \<times> request option" where
  "onstop mt st =
     (let st = st\<lparr>isRecording := False, isProcessing := True\<rparr>;
          st = release_stream st;
          audioBlob = new_Blob (audioChunksRef st) mt
      in if blob_size audioBlob = 0
         then (st\<lparr>voiceError := Some ja_empty_recording, isProcessing := False\<rparr>, None)
         else (st, Some (processAudioWithBackend_request audioBlob)))"

text \<open>\<open>mediaRecorder.onerror\<close>, with \<open>event.error?.message\<close>.\<close>

definition onerror :: "jsstring option \<Rightarrow> hook_state \<Rightarrow> hook_state" where
  "onerror message st =
     st\<lparr>voiceError := Some (ja_record_error_prefix @ or_else message ja_unknown_error),
         isRecording := False,
         isProcessing := False\<rparr>"

text \<open>\<open>stopRecording\<close>, reading \<open>isRecording\<close> from the render \<open>c\<close>.\<close>

definition stopRecording :: "hook_state \<Rightarrow> hook_state \<Rightarrow> hook_state" where
  "stopRecording c st =
     (case mediaRecorderRef st of
        None \<Rightarrow> st
      | Some r \<Rightarrow>
          if \<not> isRecording c then st
          else case recorder_stop r of
                 Inr r' \<Rightarrow> st\<lparr>mediaRecorderRef := Some r'\<rparr>
               | Inl message \<Rightarrow>
                   st\<lparr>voiceError := Some (ja_stop_error_prefix @ message),
                       isRecording := False,
                       isProcessing := False\<rparr>)"

text \<open>
  \<open>cancelRecording\<close>, reading \<open>isRecording\<close> from the render \<open>c\<close>. A throw of \<open>stop()\<close>
  is not caught here and ends the callback before the clean-up.
\<close>

definition cancelRecording :: "hook_state \<Rightarrow> hook_state \<Rightarrow> jsstring + hook_state" where
  "cancelRecording c st =
     (case (case mediaRecorderRef st of
              Some r \<Rightarrow>
                if isRecording c
                then (case recorder_stop r of
                        Inr r' \<Rightarrow> Inr (st\<lparr>mediaRecorderRef := Some r'\<rparr>)
                      | Inl message \<Rightarrow> Inl message)
                else Inr st
            | None \<Rightarrow> Inr st) of
        Inl message \<Rightarrow> Inl message
      | Inr st \<Rightarrow>
          Inr ((release_stream st)
                 \<lparr>isRecording := False,
                  isProcessing := False,
                  transcript := [],
                  confidence := 0,
                  voiceError := None,
                  audioChunksRef := []\<rparr>))"

section \<open>The chat view (ChatInterface in App.jsx)\<close>

text \<open>``Failed to send the chat message'', the fallback reason of \<open>chatAPI.sendMessage\<close>.\<close>

definition ja_chat_failed :: jsstring where
  "ja_chat_failed =
     [0x30C1, 0x30E3, 0x30C3, 0x30C8, 0x9001, 0x4FE1, 0x306B, 0x5931, 0x6557, 0x3057,
      0x307E, 0x3057, 0x305F]"

text \<open>``An error occurred: '', the Japanese half of the error message.\<close>

definition ja_error_prefix :: jsstring where
  "ja_error_prefix =
     [0x30A8, 0x30E9, 0x30FC, 0x304C, 0x767A, 0x751F, 0x3057, 0x307E, 0x3057, 0x305F,
      0x003A, 0x0020]"

text \<open>The pin emoji U+1F4CD that opens both halves of the location-change message.\<close>

definition pin :: jsstring where
  "pin =
     [0xD83D, 0xDCCD]"

text \<open>`` The location was changed to'', the part before the city.\<close>

definition ja_loc_1 :: jsstring where
  "ja_loc_1 =
     [0x0020, 0x4F4D, 0x7F6E, 0x304C]"

text \<open>The part after the country: ``. Getting weather and agricultural information for this place.''\<close>

definition ja_loc_2 :: jsstring where
  "ja_loc_2 =
     [0x306B, 0x5909, 0x66F4, 0x3055, 0x308C, 0x307E, 0x3057, 0x305F, 0x3002, 0x3053,
      0x306E, 0x5834, 0x6240, 0x306E, 0x5929, 0x6C17, 0x3068, 0x8FB2, 0x696D, 0x60C5,
      0x5831, 0x3092, 0x53D6, 0x5F97, 0x3057, 0x3066, 0x3044, 0x307E, 0x3059, 0x3002]"

record location =
  city :: jsstring
  country :: jsstring

text \<open>
  \<open>location_info\<close> of a response. The view reads \<open>current_location.city\<close> and
  \<open>.country\<close> without a guard, so a \<open>location_info\<close> that is present carries them.
\<close>

record location_info =
  location_changed :: bool
  current_location :: location
  loc_confidence :: real
  extracted_location :: "json option"

text \<open>
  The body of a chat response. \<open>success\<close> is \<open>None\<close> when the flag is absent; an absent
  or \<open>null\<close> field is \<open>None\<close>.
\<close>

record chat_response =
  success :: "bool option"
  response :: jsstring
  session_id :: "jsstring option"
  location_info :: "location_info option"
  weather :: "json option"
  crop_recommendations :: "json option"
  query_intelligence :: "json option"

datatype message_type = User | Assistant | System | LocationChange | Error

datatype msg_content =
    Plain jsstring
  | Bilingual (japanese: jsstring) (english: jsstring)

text \<open>
  A chat message object; a property the object does not have is \<open>None\<close>. \<open>msg_id\<close> is
  \<open>Date.now()\<close> plus \<open>0\<close>, \<open>0.5\<close> or \<open>1\<close>.
\<close>

record message =
  msg_id :: real
  msg_type :: message_type
  content :: msg_content
  timestamp :: int
  location_data :: "json option"
  msg_weather :: "json option"
  recommendations :: "json option"
  msg_location :: "location option"
  msg_confidence :: "real option"
  msg_query_intelligence :: "json option"
  voice_input :: "bool option"

text \<open>An object literal with the four properties every message has.\<close>

definition new_message :: "real \<Rightarrow> message_type \<Rightarrow> msg_content \<Rightarrow> int \<Rightarrow> message" where
  "new_message i ty c ts =
     \<lparr>msg_id = i, msg_type = ty, content = c, timestamp = ts,
      location_data = None, msg_weather = None, recommendations = None,
      msg_location = None, msg_confidence = None, msg_query_intelligence = None,
      voice_input = None\<rparr>"

text \<open>The React state of the view.\<close>

record ui_state =
  messages :: "message list"
  inputText :: jsstring
  isLoading :: bool
  currentWeather :: "json option"
  error :: "jsstring option"
  sessionId :: "jsstring option"
  currentLocation :: location

text \<open>
  A handler runs in the closure of one render: it reads the state variables of that
  render (\<open>c\<close> below) and queues updates, which React applies in order to the state of
  the moment (\<open>st\<close>). \<open>now\<close> is the clock reading \<open>Date.now()\<close> of the handler's run.
\<close>

text \<open>
  The truthiness of a JSON value, as \<open>if (response.weather)\<close> tests it: \<open>null\<close>,
  \<open>false\<close>, \<open>0\<close> and the empty string are falsy; every array and object is truthy.
\<close>

fun json_truthy :: "json \<Rightarrow> bool" where
  "json_truthy JNull = False"
| "json_truthy (JBool b) = b"
| "json_truthy (JNum n) = (n \<noteq> 0)"
| "json_truthy (JStr s) = (s \<noteq> [])"
| "json_truthy (JArr xs) = True"
| "json_truthy (JObj kvs) = True"

definition locationChangeMessage :: "location_info \<Rightarrow> int \<Rightarrow> message" where
  "locationChangeMessage locationInfo now =
     (new_message (of_int now + 1 / 2) LocationChange
        (Bilingual
           (pin @ ja_loc_1 @ city (current_location locationInfo) @ js '', ''
              @ country (current_location locationInfo) @ ja_loc_2)
           (pin @ js '' Location changed to '' @ city (current_location locationInfo) @ js '', ''
              @ country (current_location locationInfo)
              @ js ''. Getting weather and agricultural info for this location.''))
        now)
       \<lparr>location_data := extracted_location locationInfo\<rparr>"

definition aiMessage :: "ui_state \<Rightarrow> chat_response \<Rightarrow> bool \<Rightarrow> int \<Rightarrow> message" where
  "aiMessage c r isVoiceInput now =
     (new_message (of_int now + 1) Assistant (Bilingual (response r) (response r)) now)
       \<lparr>msg_weather := weather r,
        recommendations := crop_recommendations r,
        msg_location :=
          Some (case location_info r of
                  Some locationInfo \<Rightarrow> current_location locationInfo
                | None \<Rightarrow> currentLocation c),
        msg_confidence :=
          Some (case location_info r of
                  Some locationInfo \<Rightarrow> loc_confidence locationInfo
                | None \<Rightarrow> 0),
        msg_query_intelligence := query_intelligence r,
        voice_input := Some isVoiceInput\<rparr>"

text \<open>
  \<open>processIntelligentChatResponse\<close>. Everything is inside \<open>if (response.success)\<close>;
  the console output at its end changes no state and is left out.
\<close>

definition processIntelligentChatResponse ::
    "ui_state \<Rightarrow> chat_response \<Rightarrow> bool \<Rightarrow> int \<Rightarrow> ui_state \<Rightarrow> ui_state" where
  "processIntelligentChatResponse c r isVoiceInput now st =
     (if success r = Some True
      then
        let st = (if truthy (session_id r) \<and> session_id r \<noteq> sessionId c
                  then st\<lparr>sessionId := session_id r\<rparr> else st);
            st = (case location_info r of
                    Some locationInfo \<Rightarrow>
                      if location_changed locationInfo
                      then st\<lparr>currentLocation := current_location locationInfo,
                              messages := messages st @ [locationChangeMessage locationInfo now]\<rparr>
                      else st
                  | None \<Rightarrow> st);
            st = st\<lparr>messages := messages st @ [aiMessage c r isVoiceInput now]\<rparr>;
            st = (case weather r of
                    Some w \<Rightarrow> if json_truthy w then st\<lparr>currentWeather := Some w\<rparr> else st
                  | None \<Rightarrow> st)
        in st
      else st)"

text \<open>
  What the HTTP exchange of \<open>chatAPI.sendMessage\<close> comes to: a body, or a failure with
  \<open>error.response?.data?.error\<close> (absent when the failure has no such payload).
\<close>

datatype http_outcome =
    HttpOk chat_response
  | HttpFailed "jsstring option"

text \<open>\<open>chatAPI.sendMessage\<close> returns the body or throws an \<open>Error\<close> with a reason.\<close>

definition sendMessage_result :: "http_outcome \<Rightarrow> jsstring + chat_response" where
  "sendMessage_result outcome =
     (case outcome of
        HttpOk body \<Rightarrow> Inr body
      | HttpFailed e \<Rightarrow> Inl (or_else e ja_chat_failed))"

definition errorMessage :: "jsstring \<Rightarrow> int \<Rightarrow> message" where
  "errorMessage reason now =
     new_message (of_int now + 1) Error
       (Bilingual (ja_error_prefix @ reason) (js ''Error occurred: '' @ reason)) now"

text \<open>
  \<open>handleSendMessage\<close> up to its \<open>await\<close>: \<open>None\<close> when there is no text and the handler
  returns at once, otherwise the text sent and the state with the user message appended.
\<close>

definition handleSendMessage_start ::
    "ui_state \<Rightarrow> jsstring option \<Rightarrow> int \<Rightarrow> ui_state \<Rightarrow> (jsstring \<times> request \<times> ui_state) option" where
  "handleSendMessage_start c message now st =
     (let text = or_else message (trim (inputText c))
      in if text = [] then None
         else
           let st = st\<lparr>isLoading := True, error := None\<rparr>;
               userMessage = new_message (of_int now) User (Plain text) now;
               st = st\<lparr>messages := messages st @ [userMessage], inputText := []\<rparr>
           in Some (text, sendMessage_request text (sessionId c) (Some (js ''japanese'')), st))"

text \<open>The rest of \<open>handleSendMessage\<close>, once the exchange has come to \<open>outcome\<close>.\<close>

definition handleSendMessage_finish ::
    "ui_state \<Rightarrow> http_outcome \<Rightarrow> int \<Rightarrow> ui_state \<Rightarrow> ui_state" where
  "handleSendMessage_finish c outcome now st =
     (let st =
            (case sendMessage_result outcome of
               Inr r \<Rightarrow> processIntelligentChatResponse c r False now st
             | Inl reason \<Rightarrow>
                 st\<lparr>error := Some reason,
                     messages := messages st @ [errorMessage reason now]\<rparr>)
      in st\<lparr>isLoading := False\<rparr>)"

text \<open>
  One whole text exchange with nothing else in between: the handler is called in the
  render of state \<open>st\<close> at time \<open>now\<close>, and the exchange ends at time \<open>now'\<close>.
\<close>

definition handleSendMessage ::
    "jsstring option \<Rightarrow> int \<Rightarrow> http_outcome \<Rightarrow> int \<Rightarrow> ui_state \<Rightarrow> ui_state" where
  "handleSendMessage message now outcome now' st =
     (case handleSendMessage_start st message now st of
        None \<Rightarrow> st
      | Some (text, req, st') \<Rightarrow> handleSendMessage_finish st outcome now' st')"

section \<open>Initial states and scenario inputs\<close>

text \<open>The initial values of \<open>useState\<close> and \<open>useRef\<close> in the hook and in the view.\<close>

definition initial_hook_state :: hook_state where
  "initial_hook_state =
     \<lparr>isRecording = False, isProcessing = False, transcript = [], confidence = 0,
      voiceError = None, isSupported = True,
      mediaRecorderRef = None, audioChunksRef = [], streamRef = None\<rparr>"

definition initial_ui_state :: ui_state where
  "initial_ui_state =
     \<lparr>messages = [], inputText = [], isLoading = False, currentWeather = None,
      error = None, sessionId = None,
      currentLocation = \<lparr>city = js ''Tokyo'', country = js ''JP''\<rparr>\<rparr>"

text \<open>Two platforms: one supports every encoding asked about, one only \<open>audio/wav\<close>.\<close>

definition all_supported :: "jsstring \<Rightarrow> bool" where
  "all_supported t = True"

definition only_wav :: "jsstring \<Rightarrow> bool" where
  "only_wav t = (t = js ''audio/wav'')"

text \<open>The hook after a successful \<open>startRecording\<close> on each platform.\<close>

definition recording_opus :: hook_state where
  "recording_opus =
     startRecording initial_hook_state all_supported (Inr AudioStream) initial_hook_state"

definition recording_wav :: hook_state where
  "recording_wav =
     startRecording initial_hook_state only_wav (Inr AudioStream) initial_hook_state"

text \<open>``How is the weather in Tokyo?'', the question of the end-to-end text scenario.\<close>

definition tokyo_question :: jsstring where
  "tokyo_question =
     [0x6771, 0x4EAC, 0x306E, 0x5929, 0x6C17, 0x306F, 0x3069, 0x3046, 0xFF1F]"

text \<open>
  A plain successful response that carries the session identifier \<open>sid\<close>, and the view
  after it has processed one with \<open>abc123\<close> from its initial state.
\<close>

definition plain_response :: "jsstring option \<Rightarrow> chat_response" where
  "plain_response sid =
     \<lparr>success = Some True, response = js ''ok'', session_id = sid, location_info = None,
      weather = None, crop_recommendations = None, query_intelligence = None\<rparr>"

definition after_abc123 :: ui_state where
  "after_abc123 =
     processIntelligentChatResponse initial_ui_state (plain_response (Some (js ''abc123'')))
       False 0 initial_ui_state"

text \<open>
  The response of the end-to-end text scenario: success, a reply text, session
  \<open>abc123\<close>, a location change to Tokyo, JP with confidence \<open>0.9\<close>, and a weather object.
\<close>

definition tokyo_location_info :: "json option \<Rightarrow> location_info" where
  "tokyo_location_info ext =
     \<lparr>location_changed = True,
      current_location = \<lparr>city = js ''Tokyo'', country = js ''JP''\<rparr>,
      loc_confidence = 9 / 10,
      extracted_location = ext\<rparr>"

definition tokyo_response ::
    "jsstring \<Rightarrow> json \<Rightarrow> json option \<Rightarrow> json option \<Rightarrow> json option \<Rightarrow> chat_response" where
  "tokyo_response txt w ext crops qi =
     \<lparr>success = Some True, response = txt, session_id = Some (js ''abc123''),
      location_info = Some (tokyo_location_info ext),
      weather = Some w, crop_recommendations = crops, query_intelligence = qi\<rparr>"

section \<open>Facts about the scenario inputs\<close>

lemma trim_tokyo_question: "trim tokyo_question = tokyo_question"
  by (simp add: trim_def tokyo_question_def is_js_space_def)

lemma tokyo_question_nonempty: "tokyo_question \<noteq> []"
  by (simp add: tokyo_question_def)

lemma recording_opus_state:
  "recording_opus =
     initial_hook_state
       \<lparr>streamRef := Some AudioStream,
        mediaRecorderRef := Some \<lparr>mimeType = js ''audio/webm;codecs=opus'', rec_state = Recording\<rparr>,
        isRecording := True\<rparr>"
  by (simp add: recording_opus_def startRecording_def initial_hook_state_def all_supported_def
      Let_def)

lemma recording_wav_state:
  "recording_wav =
     initial_hook_state
       \<lparr>streamRef := Some AudioStream,
        mediaRecorderRef := Some \<lparr>mimeType = js ''audio/wav'', rec_state = Recording\<rparr>,
        isRecording := True\<rparr>"
  by (simp add: recording_wav_def startRecording_def initial_hook_state_def only_wav_def
      Let_def js_def)

lemma after_abc123_state:
  "after_abc123 =
     initial_ui_state
       \<lparr>sessionId := Some (js ''abc123''),
        messages := [aiMessage initial_ui_state (plain_response (Some (js ''abc123''))) False 0]\<rparr>"
  by (simp add: after_abc123_def processIntelligentChatResponse_def plain_response_def Let_def
      truthy_def initial_ui_state_def js_def)

section \<open>Audio validation\<close>

text \<open>
  Claim C10. \<open>validateAudioBlob\<close> returns a result for every argument, an absent blob
  included, and in that result the validity flag is true exactly when the error list
  is empty. For an absent or zero-length blob the result is the one error
  ``Audio data is empty'' with no warning: the size and encoding warnings are not
  reached.
\<close>

theorem validateAudioBlob_valid_iff_no_errors:
  "(valid (validateAudioBlob b) \<longleftrightarrow> errors (validateAudioBlob b) = [])
   \<and> validateAudioBlob None
       = \<lparr>valid = False, warnings = [], errors = [js ''Audio data is empty'']\<rparr>
   \<and> validateAudioBlob (Some \<lparr>blob_size = 0, blob_type = ty\<rparr>)
       = \<lparr>valid = False, warnings = [], errors = [js ''Audio data is empty'']\<rparr>"
  by (simp add: validateAudioBlob_def Let_def split: option.splits)

text \<open>
  Claim C7. A blob whose size is strictly between 0 and 1 KiB is valid, has no error
  and has at least one warning. Warnings never decide validity: whatever the encoding,
  a blob is valid exactly when its size is positive and at most 500 MiB.
\<close>

theorem small_audio_valid_with_warning:
  "(0 < blob_size b \<and> blob_size b < 1024 \<longrightarrow>
      valid (validateAudioBlob (Some b))
    \<and> warnings (validateAudioBlob (Some b)) \<noteq> []
    \<and> errors (validateAudioBlob (Some b)) = [])
   \<and> (valid (validateAudioBlob (Some b)) \<longleftrightarrow> 0 < blob_size b \<and> blob_size b \<le> maxSize)"
  by (auto simp add: validateAudioBlob_def Let_def maxSize_def)

theorem small_audio_valid_with_warning_witness:
  "(0::nat) < 512 \<and> (512::nat) < 1024
   \<and> valid (validateAudioBlob (Some \<lparr>blob_size = 512, blob_type = js ''audio/webm''\<rparr>))
   \<and> warnings (validateAudioBlob (Some \<lparr>blob_size = 512, blob_type = js ''audio/webm''\<rparr>)) \<noteq> []
   \<and> errors (validateAudioBlob (Some \<lparr>blob_size = 512, blob_type = js ''audio/webm''\<rparr>)) = []"
  using small_audio_valid_with_warning [of "\<lparr>blob_size = 512, blob_type = js ''audio/webm''\<rparr>"]
  by simp

text \<open>
  Claim C6. A blob of size 0 is invalid, with the error ``Audio data is empty''. When
  the blob that \<open>onstop\<close> assembles from the recorded chunks is such a blob, \<open>onstop\<close>
  sends no request to the backend: it sets the retry message as the hook's error and
  leaves the hook neither recording nor processing, so a new recording can start.
\<close>

theorem empty_audio_invalid_and_not_submitted:
  "blob_size b = 0 \<Longrightarrow>
     \<not> valid (validateAudioBlob (Some b))
   \<and> errors (validateAudioBlob (Some b)) = [js ''Audio data is empty'']
   \<and> (new_Blob (audioChunksRef st) mt = b \<longrightarrow>
        snd (onstop mt st) = None
      \<and> voiceError (fst (onstop mt st)) = Some ja_empty_recording
      \<and> \<not> isRecording (fst (onstop mt st))
      \<and> \<not> isProcessing (fst (onstop mt st)))"
  by (auto simp add: validateAudioBlob_def onstop_def Let_def release_stream_def
      split: option.splits)

theorem empty_audio_invalid_and_not_submitted_witness:
  "blob_size \<lparr>blob_size = 0, blob_type = js ''audio/webm;codecs=opus''\<rparr> = 0
   \<and> new_Blob (audioChunksRef recording_opus) (js ''audio/webm;codecs=opus'')
       = \<lparr>blob_size = 0, blob_type = js ''audio/webm;codecs=opus''\<rparr>
   \<and> \<not> valid (validateAudioBlob (Some \<lparr>blob_size = 0, blob_type = js ''audio/webm;codecs=opus''\<rparr>))
   \<and> snd (onstop (js ''audio/webm;codecs=opus'') recording_opus) = None
   \<and> voiceError (fst (onstop (js ''audio/webm;codecs=opus'') recording_opus)) = Some ja_empty_recording
   \<and> \<not> isProcessing (fst (onstop (js ''audio/webm;codecs=opus'') recording_opus))"
  using empty_audio_invalid_and_not_submitted
    [of "\<lparr>blob_size = 0, blob_type = js ''audio/webm;codecs=opus''\<rparr>" recording_opus "js ''audio/webm;codecs=opus''"]
  by (simp add: recording_opus_state initial_hook_state_def new_Blob_def)

section \<open>The voice upload and the request timeouts\<close>

text \<open>
  What \<open>createVoiceFormData\<close> builds, for every blob and every option: the audio part
  first, under the name \<open>audio\<close> with a file name that follows the encoding; the
  session identifier exactly when a non-empty one is given; the language last.
\<close>

lemma createVoiceFormData_shape:
  "createVoiceFormData b opts =
     [FileField (js ''audio'') b
        (js ''recording.'' @
           (if includes_js (blob_type b) (js ''webm'') then js ''webm'' else js ''wav''))]
     @ (case opt_session_id opts of
          None \<Rightarrow> []
        | Some s \<Rightarrow> if s \<noteq> [] then [TextField (js ''session_id'') s] else [])
     @ [TextField (js ''language'') (or_else (opt_language opts) (js ''ja''))]"
  by (simp add: createVoiceFormData_def Let_def split: option.splits)

text \<open>
  Claim C8, at the input where the code departs from it. On a platform that supports
  only \<open>audio/wav\<close>, \<open>startRecording\<close> negotiates \<open>audio/wav\<close>. After one chunk of 2048
  bytes, \<open>onstop\<close> uploads a form whose audio part is named \<open>audio\<close> and whose language
  is \<open>ja\<close>, but whose file name is \<open>recording.webm\<close>; \<open>createVoiceFormData\<close> names the
  same blob \<open>recording.wav\<close>.
\<close>

theorem hook_upload_filename_not_inferred:
  "mediaRecorderRef recording_wav = Some \<lparr>mimeType = js ''audio/wav'', rec_state = Recording\<rparr>
   \<and> snd (onstop (js ''audio/wav'')
            (ondataavailable \<lparr>blob_size = 2048, blob_type = js ''audio/wav''\<rparr> recording_wav))
       = Some (fetch_post (js ''http://localhost:5000/api/chat/voice/process'')
           [FileField (js ''audio'') \<lparr>blob_size = 2048, blob_type = js ''audio/wav''\<rparr>
              (js ''recording.webm''),
            TextField (js ''language'') (js ''ja'')])
   \<and> createVoiceFormData \<lparr>blob_size = 2048, blob_type = js ''audio/wav''\<rparr>
         \<lparr>opt_session_id = None, opt_language = None\<rparr>
       = [FileField (js ''audio'') \<lparr>blob_size = 2048, blob_type = js ''audio/wav''\<rparr>
            (js ''recording.wav''),
          TextField (js ''language'') (js ''ja'')]"
proof (intro conjI)
  show "mediaRecorderRef recording_wav
          = Some \<lparr>mimeType = js ''audio/wav'', rec_state = Recording\<rparr>"
    by (simp add: recording_wav_state)
next
  show "snd (onstop (js ''audio/wav'')
            (ondataavailable \<lparr>blob_size = 2048, blob_type = js ''audio/wav''\<rparr> recording_wav))
       = Some (fetch_post (js ''http://localhost:5000/api/chat/voice/process'')
           [FileField (js ''audio'') \<lparr>blob_size = 2048, blob_type = js ''audio/wav''\<rparr>
              (js ''recording.webm''),
            TextField (js ''language'') (js ''ja'')])"
    by (simp add: recording_wav_state initial_hook_state_def onstop_def ondataavailable_def
        Let_def release_stream_def new_Blob_def processAudioWithBackend_request_def)
next
  show "createVoiceFormData \<lparr>blob_size = 2048, blob_type = js ''audio/wav''\<rparr>
         \<lparr>opt_session_id = None, opt_language = None\<rparr>
       = [FileField (js ''audio'') \<lparr>blob_size = 2048, blob_type = js ''audio/wav''\<rparr>
            (js ''recording.wav''),
          TextField (js ''language'') (js ''ja'')]"
    by (simp add: createVoiceFormData_shape or_else_def js_def)
qed

lemmas api_call_defs = api_def api_get_def api_post_def

text \<open>
  Claim C9 as stated fails: the request of \<open>chatAPI.sendMessage\<close> does not carry a
  timeout of 30 seconds, and the voice submission, which goes through \<open>fetch\<close>, does
  not carry one of 60 seconds.
\<close>

theorem timeouts_30_and_60_counterexample:
  "req_timeout (sendMessage_request tokyo_question None None) \<noteq> Some 30000
   \<and> req_timeout (processVoiceInput_request []) \<noteq> Some 60000"
  by (simp add: api_call_defs sendMessage_request_def processVoiceInput_request_def
      fetch_post_def)

text \<open>
  Claim C9, amended. Every JSON call of the client goes through the one \<open>axios\<close>
  instance and carries its fixed timeout of 60 seconds, whatever its arguments.
\<close>

theorem json_calls_timeout_60s:
  "req_timeout (sendMessage_request m sid lang) = Some 60000
   \<and> req_timeout getVoiceStatus_request = Some 60000
   \<and> req_timeout (analyzeQuery_request m) = Some 60000
   \<and> req_timeout (getCurrentWeather_request cty ctry) = Some 60000
   \<and> req_timeout (getForecast_request cty ctry days) = Some 60000
   \<and> req_timeout (searchLocations_request query) = Some 60000
   \<and> req_timeout (getCropRecommendations_request cty ctry) = Some 60000
   \<and> req_timeout (getPestRiskAssessment_request cty ctry cropType) = Some 60000
   \<and> req_timeout (getSeasonalAdvice_request cty ctry) = Some 60000
   \<and> req_timeout checkHealth_request = Some 60000
   \<and> req_timeout getApiDocs_request = Some 60000"
  by (simp add: api_call_defs sendMessage_request_def getVoiceStatus_request_def
      analyzeQuery_request_def getCurrentWeather_request_def getForecast_request_def
      searchLocations_request_def getCropRecommendations_request_def
      getPestRiskAssessment_request_def getSeasonalAdvice_request_def checkHealth_request_def
      getApiDocs_request_def)

section \<open>Cancelling a recording\<close>

text \<open>
  What \<open>cancelRecording\<close> does by itself, from every state and in every render: it
  returns, and leaves the hook neither recording nor processing, with no chunk and no
  stream; a second call changes nothing.
\<close>

lemma cancelRecording_idle:
  "\<exists>st'. cancelRecording c st = Inr st'
     \<and> \<not> isRecording st' \<and> \<not> isProcessing st'
     \<and> audioChunksRef st' = [] \<and> streamRef st' = None
     \<and> cancelRecording st' st' = Inr st'"
  by (auto simp add: cancelRecording_def recorder_stop_def release_stream_def
      split: option.splits)

text \<open>
  Claim C3, at the input where the code departs from it. A recording is running and
  \<open>cancelRecording\<close> is called: the hook is idle, with no chunk and no stream. The
  call has stopped the recorder, so the platform then fires \<open>dataavailable\<close> with the
  800 bytes gathered so far and \<open>stop\<close>. After these two handlers the hook is
  processing, the chunk buffer holds the 800 bytes, and they are being uploaded.
\<close>

theorem cancel_then_onstop_uploads:
  "cancelRecording recording_opus recording_opus
     = Inr (initial_hook_state
             \<lparr>mediaRecorderRef :=
                Some \<lparr>mimeType = js ''audio/webm;codecs=opus'', rec_state = Inactive\<rparr>\<rparr>)
   \<and> onstop (js ''audio/webm;codecs=opus'')
       (ondataavailable \<lparr>blob_size = 800, blob_type = js ''audio/webm;codecs=opus''\<rparr>
          (initial_hook_state
             \<lparr>mediaRecorderRef :=
                Some \<lparr>mimeType = js ''audio/webm;codecs=opus'', rec_state = Inactive\<rparr>\<rparr>))
     = (initial_hook_state
          \<lparr>mediaRecorderRef :=
             Some \<lparr>mimeType = js ''audio/webm;codecs=opus'', rec_state = Inactive\<rparr>,
           isProcessing := True,
           audioChunksRef := [\<lparr>blob_size = 800, blob_type = js ''audio/webm;codecs=opus''\<rparr>]\<rparr>,
        Some (processAudioWithBackend_request
                \<lparr>blob_size = 800, blob_type = js ''audio/webm;codecs=opus''\<rparr>))"
proof (intro conjI)
  show "cancelRecording recording_opus recording_opus
     = Inr (initial_hook_state
             \<lparr>mediaRecorderRef :=
                Some \<lparr>mimeType = js ''audio/webm;codecs=opus'', rec_state = Inactive\<rparr>\<rparr>)"
    by (simp add: recording_opus_state initial_hook_state_def cancelRecording_def
        recorder_stop_def release_stream_def)
next
  show "onstop (js ''audio/webm;codecs=opus'')
       (ondataavailable \<lparr>blob_size = 800, blob_type = js ''audio/webm;codecs=opus''\<rparr>
          (initial_hook_state
             \<lparr>mediaRecorderRef :=
                Some \<lparr>mimeType = js ''audio/webm;codecs=opus'', rec_state = Inactive\<rparr>\<rparr>))
     = (initial_hook_state
          \<lparr>mediaRecorderRef :=
             Some \<lparr>mimeType = js ''audio/webm;codecs=opus'', rec_state = Inactive\<rparr>,
           isProcessing := True,
           audioChunksRef := [\<lparr>blob_size = 800, blob_type = js ''audio/webm;codecs=opus''\<rparr>]\<rparr>,
        Some (processAudioWithBackend_request
                \<lparr>blob_size = 800, blob_type = js ''audio/webm;codecs=opus''\<rparr>))"
    by (simp add: initial_hook_state_def onstop_def ondataavailable_def Let_def
        release_stream_def new_Blob_def)
qed

section \<open>Processing a chat response\<close>

text \<open>
  Claim C5. When a successful response carries a \<open>location_info\<close> whose
  \<open>location_changed\<close> is true, processing it appends the location-change message and
  then the assistant's reply, and nothing else, and the current location becomes
  \<open>location_info.current_location\<close>. When a response carries no such flag, processing it
  appends at most the assistant's reply, so no location-change message, and leaves the
  current location as it was.
\<close>

theorem location_change_processed:
  "(success r = Some True \<and> location_info r = Some li \<and> location_changed li \<longrightarrow>
      messages (processIntelligentChatResponse c r v now st)
        = messages st @ [locationChangeMessage li now, aiMessage c r v now]
    \<and> msg_type (locationChangeMessage li now) = LocationChange
    \<and> msg_type (aiMessage c r v now) = Assistant
    \<and> currentLocation (processIntelligentChatResponse c r v now st) = current_location li)
   \<and> (\<not> (\<exists>l. location_info r = Some l \<and> location_changed l) \<longrightarrow>
      messages (processIntelligentChatResponse c r v now st)
        = messages st @ (if success r = Some True then [aiMessage c r v now] else [])
    \<and> msg_type (aiMessage c r v now) = Assistant
    \<and> currentLocation (processIntelligentChatResponse c r v now st) = currentLocation st)"
  by (auto simp add: processIntelligentChatResponse_def Let_def locationChangeMessage_def
      aiMessage_def new_message_def split: option.splits)

theorem location_change_processed_witness:
  "success (tokyo_response [] JNull None None None) = Some True
   \<and> location_info (tokyo_response [] JNull None None None) = Some (tokyo_location_info None)
   \<and> location_changed (tokyo_location_info None)
   \<and> messages (processIntelligentChatResponse initial_ui_state
         (tokyo_response [] JNull None None None) False 0 initial_ui_state)
       = [locationChangeMessage (tokyo_location_info None) 0,
          aiMessage initial_ui_state (tokyo_response [] JNull None None None) False 0]
   \<and> currentLocation (processIntelligentChatResponse initial_ui_state
         (tokyo_response [] JNull None None None) False 0 initial_ui_state)
       = \<lparr>city = js ''Tokyo'', country = js ''JP''\<rparr>
   \<and> \<not> (\<exists>l. location_info (plain_response None) = Some l \<and> location_changed l)
   \<and> messages (processIntelligentChatResponse initial_ui_state (plain_response None)
         False 0 initial_ui_state)
       = [aiMessage initial_ui_state (plain_response None) False 0]
   \<and> currentLocation (processIntelligentChatResponse initial_ui_state (plain_response None)
         False 0 initial_ui_state)
       = \<lparr>city = js ''Tokyo'', country = js ''JP''\<rparr>"
  using location_change_processed
      [of "tokyo_response [] JNull None None None" "tokyo_location_info None"
          initial_ui_state False 0 initial_ui_state]
    location_change_processed
      [of "plain_response None" "tokyo_location_info None"
          initial_ui_state False 0 initial_ui_state]
  by (simp add: tokyo_response_def tokyo_location_info_def plain_response_def
      initial_ui_state_def)

text \<open>
  Claim C1 as stated fails. From its initial state the view processes a successful
  response with session \<open>abc123\<close> and stores it; it then processes a successful
  response with session \<open>xyz789\<close>, and the stored identifier becomes \<open>xyz789\<close>.
\<close>

theorem session_id_overwritten_counterexample:
  "sessionId after_abc123 = Some (js ''abc123'')
   \<and> sessionId (processIntelligentChatResponse after_abc123
        (plain_response (Some (js ''xyz789''))) False 1 after_abc123) = Some (js ''xyz789'')
   \<and> js ''xyz789'' \<noteq> js ''abc123''"
  by (simp add: after_abc123_state processIntelligentChatResponse_def plain_response_def Let_def
      truthy_def initial_ui_state_def js_def)

text \<open>
  Claim C1, amended. Once a successful response with a non-empty \<open>session_id\<close> has been
  processed, the stored identifier is that \<open>session_id\<close>. A later successful response,
  processed in the render that follows, leaves it unchanged when it omits \<open>session_id\<close>
  or carries an empty one, and replaces it with its own \<open>session_id\<close> otherwise.
\<close>

theorem session_id_after_two_responses:
  "success r1 = Some True \<Longrightarrow> truthy (session_id r1) \<Longrightarrow> success r2 = Some True \<Longrightarrow>
     sessionId (processIntelligentChatResponse st r1 v1 n1 st) = session_id r1
   \<and> sessionId (processIntelligentChatResponse
         (processIntelligentChatResponse st r1 v1 n1 st) r2 v2 n2
         (processIntelligentChatResponse st r1 v1 n1 st))
       = (if truthy (session_id r2) then session_id r2 else session_id r1)"
  by (auto simp add: processIntelligentChatResponse_def Let_def split: option.splits)

theorem session_id_after_two_responses_witness:
  "success (plain_response (Some (js ''abc123''))) = Some True
   \<and> truthy (session_id (plain_response (Some (js ''abc123''))))
   \<and> success (plain_response None) = Some True
   \<and> sessionId (processIntelligentChatResponse
         (processIntelligentChatResponse initial_ui_state
            (plain_response (Some (js ''abc123''))) False 0 initial_ui_state)
         (plain_response None) False 1
         (processIntelligentChatResponse initial_ui_state
            (plain_response (Some (js ''abc123''))) False 0 initial_ui_state))
       = Some (js ''abc123'')"
  using session_id_after_two_responses
      [of "plain_response (Some (js ''abc123''))" "plain_response None"
          initial_ui_state False 0 False 1]
  by (simp add: plain_response_def truthy_def js_def)

section \<open>A text exchange\<close>

text \<open>
  When \<open>chatAPI.sendMessage\<close> throws, the \<open>catch\<close> of \<open>handleSendMessage\<close> runs: the log
  gains the user message and then exactly one error message, which carries the reason
  thrown; the session identifier and the current location are unchanged.
\<close>

lemma text_exchange_thrown:
  "or_else message (trim (inputText st)) \<noteq> [] \<Longrightarrow>
     messages (handleSendMessage message now (HttpFailed e) now' st)
       = messages st @
           [new_message (of_int now) User (Plain (or_else message (trim (inputText st)))) now,
            errorMessage (or_else e ja_chat_failed) now']
   \<and> msg_type (errorMessage (or_else e ja_chat_failed) now') = Error
   \<and> content (errorMessage (or_else e ja_chat_failed) now')
       = Bilingual (ja_error_prefix @ or_else e ja_chat_failed)
           (js ''Error occurred: '' @ or_else e ja_chat_failed)
   \<and> error (handleSendMessage message now (HttpFailed e) now' st)
       = Some (or_else e ja_chat_failed)
   \<and> sessionId (handleSendMessage message now (HttpFailed e) now' st) = sessionId st
   \<and> currentLocation (handleSendMessage message now (HttpFailed e) now' st) = currentLocation st"
  by (simp add: handleSendMessage_def handleSendMessage_start_def handleSendMessage_finish_def
      sendMessage_result_def Let_def errorMessage_def new_message_def)

text \<open>
  Claim C2, at the input where the code departs from it. The user sends \<open>hello\<close> from
  the initial state and the exchange fails with a body whose \<open>success\<close> flag is false,
  or absent. The log then holds the user message alone: no error message is appended,
  and the view's error stays unset, so the failure is shown nowhere. The session
  identifier and the current location are unchanged.
\<close>

theorem unsuccessful_response_swallowed:
  "messages (handleSendMessage (Some (js ''hello'')) 0
      (HttpOk \<lparr>success = Some False, response = [], session_id = None, location_info = None,
               weather = None, crop_recommendations = None, query_intelligence = None\<rparr>)
      5 initial_ui_state)
     = [new_message 0 User (Plain (js ''hello'')) 0]
   \<and> error (handleSendMessage (Some (js ''hello'')) 0
      (HttpOk \<lparr>success = Some False, response = [], session_id = None, location_info = None,
               weather = None, crop_recommendations = None, query_intelligence = None\<rparr>)
      5 initial_ui_state)
     = None
   \<and> messages (handleSendMessage (Some (js ''hello'')) 0
      (HttpOk \<lparr>success = None, response = [], session_id = None, location_info = None,
               weather = None, crop_recommendations = None, query_intelligence = None\<rparr>)
      5 initial_ui_state)
     = [new_message 0 User (Plain (js ''hello'')) 0]
   \<and> error (handleSendMessage (Some (js ''hello'')) 0
      (HttpOk \<lparr>success = None, response = [], session_id = None, location_info = None,
               weather = None, crop_recommendations = None, query_intelligence = None\<rparr>)
      5 initial_ui_state)
     = None
   \<and> sessionId (handleSendMessage (Some (js ''hello'')) 0
      (HttpOk \<lparr>success = Some False, response = [], session_id = None, location_info = None,
               weather = None, crop_recommendations = None, query_intelligence = None\<rparr>)
      5 initial_ui_state)
     = sessionId initial_ui_state
   \<and> currentLocation (handleSendMessage (Some (js ''hello'')) 0
      (HttpOk \<lparr>success = Some False, response = [], session_id = None, location_info = None,
               weather = None, crop_recommendations = None, query_intelligence = None\<rparr>)
      5 initial_ui_state)
     = currentLocation initial_ui_state"
  by (simp add: handleSendMessage_def handleSendMessage_start_def handleSendMessage_finish_def
      sendMessage_result_def processIntelligentChatResponse_def Let_def or_else_def
      initial_ui_state_def js_def)

text \<open>
  Claim C4. The user has typed ``How is the weather in Tokyo?'' and sends it; the
  backend returns success, a reply text, session \<open>abc123\<close>, a location change to Tokyo,
  JP and a weather value that is truthy, as every object is. Whatever the state before,
  the log gains exactly three messages, of types user, location change and assistant in
  this order; the stored session identifier is \<open>abc123\<close>, the cached weather is the
  weather returned and the current location is Tokyo, JP.
\<close>

theorem tokyo_text_scenario:
  "json_truthy w \<Longrightarrow>
     messages (handleSendMessage None now (HttpOk (tokyo_response txt w ext crops qi)) now'
                (st\<lparr>inputText := tokyo_question\<rparr>))
       = messages st @
           [new_message (of_int now) User (Plain tokyo_question) now,
            locationChangeMessage (tokyo_location_info ext) now',
            aiMessage (st\<lparr>inputText := tokyo_question\<rparr>) (tokyo_response txt w ext crops qi)
              False now']
   \<and> map msg_type
         [new_message (of_int now) User (Plain tokyo_question) now,
          locationChangeMessage (tokyo_location_info ext) now',
          aiMessage (st\<lparr>inputText := tokyo_question\<rparr>) (tokyo_response txt w ext crops qi)
            False now']
       = [User, LocationChange, Assistant]
   \<and> sessionId (handleSendMessage None now (HttpOk (tokyo_response txt w ext crops qi)) now'
                (st\<lparr>inputText := tokyo_question\<rparr>)) = Some (js ''abc123'')
   \<and> currentWeather (handleSendMessage None now (HttpOk (tokyo_response txt w ext crops qi)) now'
                (st\<lparr>inputText := tokyo_question\<rparr>)) = Some w
   \<and> currentLocation (handleSendMessage None now (HttpOk (tokyo_response txt w ext crops qi)) now'
                (st\<lparr>inputText := tokyo_question\<rparr>))
       = \<lparr>city = js ''Tokyo'', country = js ''JP''\<rparr>"
proof -
  assume w: "json_truthy w"
  have start:
    "handleSendMessage_start (st\<lparr>inputText := tokyo_question\<rparr>) None now
        (st\<lparr>inputText := tokyo_question\<rparr>)
      = Some (tokyo_question,
              sendMessage_request tokyo_question (sessionId st) (Some (js ''japanese'')),
              st\<lparr>inputText := [], isLoading := True, error := None,
                 messages := messages st
                   @ [new_message (of_int now) User (Plain tokyo_question) now]\<rparr>)"
    by (simp add: handleSendMessage_start_def or_else_def trim_tokyo_question
        tokyo_question_nonempty Let_def)
  show ?thesis
    using w
    by (simp add: handleSendMessage_def start handleSendMessage_finish_def sendMessage_result_def
        processIntelligentChatResponse_def tokyo_response_def tokyo_location_info_def truthy_def
        Let_def locationChangeMessage_def aiMessage_def new_message_def js_def)
qed

theorem tokyo_text_scenario_witness:
  "json_truthy (JObj [(js ''temperature'', JNum 21)])
   \<and> messages (handleSendMessage None 0
        (HttpOk (tokyo_response (js ''ok'') (JObj [(js ''temperature'', JNum 21)]) None None None))
        5 (initial_ui_state\<lparr>inputText := tokyo_question\<rparr>))
       = [new_message 0 User (Plain tokyo_question) 0,
          locationChangeMessage (tokyo_location_info None) 5,
          aiMessage (initial_ui_state\<lparr>inputText := tokyo_question\<rparr>)
            (tokyo_response (js ''ok'') (JObj [(js ''temperature'', JNum 21)]) None None None)
            False 5]
   \<and> sessionId (handleSendMessage None 0
        (HttpOk (tokyo_response (js ''ok'') (JObj [(js ''temperature'', JNum 21)]) None None None))
        5 (initial_ui_state\<lparr>inputText := tokyo_question\<rparr>)) = Some (js ''abc123'')
   \<and> currentWeather (handleSendMessage None 0
        (HttpOk (tokyo_response (js ''ok'') (JObj [(js ''temperature'', JNum 21)]) None None None))
        5 (initial_ui_state\<lparr>inputText := tokyo_question\<rparr>))
       = Some (JObj [(js ''temperature'', JNum 21)])"
  using tokyo_text_scenario
      [of "JObj [(js ''temperature'', JNum 21)]" 0 "js ''ok''" None None None 5 initial_ui_state]
  by (simp add: initial_ui_state_def)

end
